theory Spec2Isabelle
  imports Complex_Main
begin

section \<open>Numbers and failures of the Python source\<close>

text \<open>
  The calculator of \<^verbatim>\<open>src/App.py\<close> works on Python numbers. Python integers are
  modelled by \<open>int\<close>. Python floats are modelled by exact rationals (\<open>rat\<close>): every
  decimal literal of the source is the fraction it denotes (\<open>31.71\<close> is \<open>3171 / 100\<close>)
  and the arithmetic is exact, so the binary rounding of each floating-point operation is
  not part of this model.

  An exception of the source is a value of type \<open>py_exception\<close>, returned on the left of
  a sum.
\<close>

datatype py_exception = KeyError int | ZeroDivisionError

text \<open>Python's true division \<^verbatim>\<open>a / b\<close> raises on a zero divisor.\<close>

definition truediv :: "rat \<Rightarrow> rat \<Rightarrow> py_exception + rat" where
  "truediv a b = (if b = 0 then Inl ZeroDivisionError else Inr (a / b))"

text \<open>
  Python's \<^verbatim>\<open>round(x, n)\<close> rounds to \<open>n\<close> decimals, a tie going to the even
  neighbour. Here the number rounded is the exact rational. Where that number is exactly
  half-way between two neighbours, the binary64 number the source rounds lies a little to
  one side of it, and the source may return the other neighbour, one unit of the last
  decimal away. Away from such ties the two agree.
\<close>

definition round_half_even :: "rat \<Rightarrow> int" where
  "round_half_even q =
     (let f = \<lfloor>q\<rfloor>; d = q - of_int f
      in if d < 1 / 2 then f
         else if 1 / 2 < d then f + 1
         else if even f then f else f + 1)"

definition py_round :: "rat \<Rightarrow> nat \<Rightarrow> rat" where
  "py_round x n = of_int (round_half_even (x * 10 ^ n)) / 10 ^ n"

section \<open>Class \<^verbatim>\<open>AREIntermittent\<close>\<close>

text \<open>The class constants (lines 21 to 37).\<close>

definition AJ_MINIMALE :: rat where
  "AJ_MINIMALE = 3171 / 100"

definition SMIC_JOURNALIER :: rat where
  "SMIC_JOURNALIER = 60"

record params =
  seuil_salaire :: int
  taux_salaire_inf :: rat
  taux_salaire_sup :: rat
  seuil_heures :: int
  taux_heures_inf :: rat
  taux_heures_sup :: rat
  partie_c :: rat
  plancher :: rat

definition params_techniciens :: params where
  "params_techniciens =
     \<lparr>seuil_salaire = 14400, taux_salaire_inf = 42 / 100, taux_salaire_sup = 5 / 100,
      seuil_heures = 720, taux_heures_inf = 26 / 100, taux_heures_sup = 8 / 100,
      partie_c = 40 / 100, plancher = 3834 / 100\<rparr>"

definition params_artistes :: params where
  "params_artistes =
     \<lparr>seuil_salaire = 13700, taux_salaire_inf = 36 / 100, taux_salaire_sup = 5 / 100,
      seuil_heures = 690, taux_heures_inf = 26 / 100, taux_heures_sup = 8 / 100,
      partie_c = 70 / 100, plancher = 4443 / 100\<rparr>"

definition PARAMS :: "int \<rightharpoonup> params" where
  "PARAMS = [8 \<mapsto> params_techniciens, 10 \<mapsto> params_artistes]"

text \<open>
  The returned dictionary \<^verbatim>\<open>{"net": ..., "brut": ..., "details": ...}\<close>. The details
  are a dictionary from names to numbers or text, kept in insertion order.
\<close>

datatype detail = Num rat | Txt string

record are_result =
  net :: rat
  brut :: rat
  details :: "(string \<times> detail) list"

text \<open>
  Lines 58 to 62: the daily reference wage stays \<open>0\<close> unless the number of reference
  days is positive.
\<close>

definition calculer_sjr :: "rat \<Rightarrow> int \<Rightarrow> py_exception + rat" where
  "calculer_sjr salaire_reference_brut_12mois jours_reference =
     (if jours_reference > 0
      then truediv salaire_reference_brut_12mois (of_int jours_reference)
      else Inr 0)"

text \<open>Lines 68 to 74: the gross daily allowance of annexe 10, before rounding.\<close>

definition partie_a_grok :: "rat \<Rightarrow> rat" where
  "partie_a_grok sjr = max AJ_MINIMALE (70 / 100 * sjr)"

definition partie_b_grok :: "int \<Rightarrow> rat" where
  "partie_b_grok total_cachets_12mois = 1227 / 100 * of_int total_cachets_12mois / 12"

definition are_brute_annexe10 :: "params \<Rightarrow> rat \<Rightarrow> int \<Rightarrow> rat" where
  "are_brute_annexe10 p sjr total_cachets_12mois =
     max (partie_a_grok sjr + partie_b_grok total_cachets_12mois) (plancher p)"

text \<open>Lines 87 to 106: the three parts of annexe 8 and their gross sum, before rounding.\<close>

definition partie_a :: "params \<Rightarrow> rat \<Rightarrow> rat" where
  "partie_a p salaire_calcul_a =
     (if salaire_calcul_a \<le> of_int (seuil_salaire p)
      then (AJ_MINIMALE * taux_salaire_inf p * salaire_calcul_a) / 5000
      else (AJ_MINIMALE *
              (taux_salaire_inf p * of_int (seuil_salaire p) +
               taux_salaire_sup p * (salaire_calcul_a - of_int (seuil_salaire p)))) / 5000)"

definition partie_b :: "params \<Rightarrow> int \<Rightarrow> rat" where
  "partie_b p heures_travaillees_12mois =
     (if heures_travaillees_12mois \<le> seuil_heures p
      then (AJ_MINIMALE * taux_heures_inf p * of_int heures_travaillees_12mois) / 507
      else (AJ_MINIMALE *
              (taux_heures_inf p * of_int (seuil_heures p) +
               taux_heures_sup p * of_int (heures_travaillees_12mois - seuil_heures p))) / 507)"

definition partie_fixe :: "params \<Rightarrow> rat" where
  "partie_fixe p = AJ_MINIMALE * partie_c p"

definition are_brute_annexe8 :: "params \<Rightarrow> rat \<Rightarrow> int \<Rightarrow> rat" where
  "are_brute_annexe8 p salaire heures =
     max (partie_a p salaire + partie_b p heures + partie_fixe p) (plancher p)"

text \<open>
  Line 119: the social deduction applies above the daily threshold only. The test is made
  here on the exact gross allowance. The source makes it on the binary64 gross allowance,
  which can differ from the exact one by a rounding error far below a cent: where
  the exact gross allowance is 60 or that close to it, the source may take the
  other branch. The results below that depend on the branch are therefore stated for a
  returned gross allowance strictly below 60, which keeps the gross allowance at least half
  a cent away from the threshold.
\<close>

definition are_nette :: "rat \<Rightarrow> rat" where
  "are_nette are_brute =
     (if are_brute > SMIC_JOURNALIER then are_brute * (933 / 1000) else are_brute)"

text \<open>Lines 125 to 140: the annualisation divisor of annexe 10 and the returned record.\<close>

definition diviseur_annualisation :: rat where
  "diviseur_annualisation = 176 / 100"

definition resultat :: "int \<Rightarrow> rat \<Rightarrow> (string \<times> detail) list \<Rightarrow> are_result" where
  "resultat annexe are_brute dets =
     (if annexe = 10
      then \<lparr>net = py_round (are_nette are_brute / diviseur_annualisation) 2,
            brut = py_round are_brute 2,
            details = dets @
              [(''diviseur_annualisation_applique'', Num diviseur_annualisation),
               (''are_nette_avant_diviseur'', Num (py_round (are_nette are_brute) 2))]\<rparr>
      else \<lparr>net = py_round (are_nette are_brute) 2,
            brut = py_round are_brute 2,
            details = dets @
              [(''diviseur_annualisation_applique'', Txt ''Non applicable'')]\<rparr>)"

text \<open>
  \<^verbatim>\<open>calculer_are\<close> (lines 40 to 140). The result is the exception raised, or the
  messages handed to \<^verbatim>\<open>st.error\<close> together with the returned dictionary. The
  parameters are looked up first (line 55), before the annexe is tested.
\<close>

definition calculer_are ::
  "int \<Rightarrow> rat \<Rightarrow> int \<Rightarrow> int \<Rightarrow> int \<Rightarrow> py_exception + (string list \<times> are_result)" where
  "calculer_are annexe salaire_reference_brut_12mois heures_travaillees_12mois
       total_cachets_12mois jours_reference =
     (case PARAMS annexe of
        None \<Rightarrow> Inl (KeyError annexe)
      | Some p \<Rightarrow>
         (case calculer_sjr salaire_reference_brut_12mois jours_reference of
            Inl e \<Rightarrow> Inl e
          | Inr sjr \<Rightarrow>
             if annexe = 10 then
               Inr ([], resultat annexe
                 (are_brute_annexe10 p sjr total_cachets_12mois)
                 [(''sjr'', Num (py_round sjr 2)),
                  (''partie_sjr_70pc'', Num (py_round (70 / 100 * sjr) 2)),
                  (''partie_a_grok_final'', Num (py_round (partie_a_grok sjr) 2)),
                  (''partie_b_grok_cachets'',
                     Num (py_round (partie_b_grok total_cachets_12mois) 2))])
             else if annexe = 8 then
               Inr ([], resultat annexe
                 (are_brute_annexe8 p salaire_reference_brut_12mois heures_travaillees_12mois)
                 [(''partie_a'', Num (py_round (partie_a p salaire_reference_brut_12mois) 2)),
                  (''partie_b'', Num (py_round (partie_b p heures_travaillees_12mois) 2)),
                  (''partie_c'', Num (py_round (partie_fixe p) 2))])
             else
               Inr ([''Annexe non supportee.''], \<lparr>net = 0, brut = 0, details = []\<rparr>)))"

section \<open>Monthly simulation\<close>

text \<open>\<^verbatim>\<open>calcul_jni\<close> (lines 174 to 179): the days without allowance.\<close>

definition calcul_jni :: "int \<Rightarrow> int \<Rightarrow> int \<Rightarrow> int" where
  "calcul_jni annexe heures_totales jours_mois =
     (if annexe = 10
      then min \<lceil>(of_int heures_totales * (13 / 10 :: rat)) / 10\<rceil> jours_mois
      else min \<lceil>(of_int heures_totales * (14 / 10 :: rat)) / 8\<rceil> jours_mois)"

text \<open>
  The computation behind the button of the monthly page (lines 280 to 289): the total of
  the hours, the days without allowance, the days with allowance and the monthly amount.
\<close>

record mois =
  heures_totales :: int
  jni :: int
  jours_indem :: int
  are_mensuelle :: rat

definition simuler_mois ::
  "int \<Rightarrow> int \<Rightarrow> int \<Rightarrow> int \<Rightarrow> int \<Rightarrow> int \<Rightarrow> int \<Rightarrow> int \<Rightarrow> rat \<Rightarrow> mois" where
  "simuler_mois annexe jours_mois cachets heures_cachet cachets_repet jours_maladie
       heures_formation cdd_heures are_journaliere_override =
     (let h = (cachets * heures_cachet) + (cachets_repet * 6) + (jours_maladie * 8)
               + heures_formation + cdd_heures;
          j = calcul_jni annexe h jours_mois;
          ji = max (jours_mois - j) 0
      in \<lparr>heures_totales = h, jni = j, jours_indem = ji,
           are_mensuelle = are_journaliere_override * of_int ji\<rparr>)"

section \<open>The technician formula as the specification words it\<close>

text \<open>
  The specification gives the gross daily allowance of a technician with \<open>min\<close> and
  \<open>max\<close> instead of the two branches of the code: each part is the minimum allowance
  \<open>31.71\<close> times the rate below the threshold on the amount up to the threshold plus the
  rate above it on the excess, divided by \<open>5000\<close> for the salary and by \<open>507\<close> for the
  hours; the fixed part is \<open>31.71 \<times> 0.40\<close>; the floor is \<open>38.34\<close>.
\<close>

definition spec_technician_gross :: "rat \<Rightarrow> rat \<Rightarrow> rat" where
  "spec_technician_gross salary hours =
     max (3171 / 100 * (42 / 100 * min salary 14400 + 5 / 100 * max 0 (salary - 14400)) / 5000
          + 3171 / 100 * (26 / 100 * min hours 720 + 8 / 100 * max 0 (hours - 720)) / 507
          + 3171 / 100 * (40 / 100))
         (3834 / 100)"

section \<open>Rounding\<close>

lemma round_half_even_bounds:
  "\<lfloor>q\<rfloor> \<le> round_half_even q" "round_half_even q \<le> \<lfloor>q\<rfloor> + 1"
  by (simp_all add: round_half_even_def Let_def)

lemma round_half_even_mono:
  assumes "x \<le> y"
  shows "round_half_even x \<le> round_half_even y"
proof (cases "\<lfloor>x\<rfloor> = \<lfloor>y\<rfloor>")
  case True
  with assms have "x - of_int \<lfloor>x\<rfloor> \<le> y - of_int \<lfloor>y\<rfloor>"
    by simp
  with True show ?thesis
    by (auto simp add: round_half_even_def Let_def)
next
  case False
  moreover have "\<lfloor>x\<rfloor> \<le> \<lfloor>y\<rfloor>"
    using assms by (rule floor_mono)
  ultimately have "\<lfloor>x\<rfloor> + 1 \<le> \<lfloor>y\<rfloor>"
    by simp
  with round_half_even_bounds(2) [of x] round_half_even_bounds(1) [of y]
  show ?thesis
    by linarith
qed

lemma py_round_mono:
  assumes "x \<le> y"
  shows "py_round x n \<le> py_round y n"
proof -
  have "x * 10 ^ n \<le> y * 10 ^ n"
    using assms by (simp add: mult_right_mono)
  then have "round_half_even (x * 10 ^ n) \<le> round_half_even (y * 10 ^ n)"
    by (rule round_half_even_mono)
  then show ?thesis
    by (simp add: py_round_def divide_right_mono)
qed

lemma py_round_plancher_8: "py_round (plancher params_techniciens) 2 = 3834 / 100"
  by code_simp

lemma py_round_plancher_10: "py_round (plancher params_artistes) 2 = 4443 / 100"
  by code_simp

lemma round_half_even_close: "\<bar>of_int (round_half_even q) - q\<bar> \<le> 1 / 2"
proof -
  have "of_int \<lfloor>q\<rfloor> \<le> q" and "q < of_int \<lfloor>q\<rfloor> + 1"
    by linarith+
  then show ?thesis
    by (auto simp add: round_half_even_def Let_def abs_le_iff)
qed

lemma py_round_close: "\<bar>py_round x 2 - x\<bar> \<le> 1 / 200"
proof -
  have "\<bar>of_int (round_half_even (x * 100)) - x * 100\<bar> \<le> 1 / 2"
    by (rule round_half_even_close)
  then show ?thesis
    by (simp add: py_round_def abs_le_iff field_simps)
qed

lemma py_round_SMIC: "py_round SMIC_JOURNALIER 2 = SMIC_JOURNALIER"
  by code_simp

lemma py_round_below_SMIC:
  assumes "py_round b 2 < SMIC_JOURNALIER"
  shows "b < SMIC_JOURNALIER"
proof (rule ccontr)
  assume "\<not> b < SMIC_JOURNALIER"
  then have "SMIC_JOURNALIER \<le> b"
    by simp
  then have "py_round SMIC_JOURNALIER 2 \<le> py_round b 2"
    by (rule py_round_mono)
  with assms show False
    by (simp add: py_round_SMIC)
qed

section \<open>The parts of the calculation\<close>

lemma PARAMS_simps:
  "PARAMS 8 = Some params_techniciens"
  "PARAMS 10 = Some params_artistes"
  "a \<noteq> 8 \<Longrightarrow> a \<noteq> 10 \<Longrightarrow> PARAMS a = None"
  by (simp_all add: PARAMS_def)

lemma calculer_sjr_eq:
  "calculer_sjr s j = Inr (if 0 < j then s / of_int j else 0)"
  by (simp add: calculer_sjr_def truediv_def)

lemma calculer_are_8:
  "calculer_are 8 s h c j =
     Inr ([], resultat 8 (are_brute_annexe8 params_techniciens s h)
       [(''partie_a'', Num (py_round (partie_a params_techniciens s) 2)),
        (''partie_b'', Num (py_round (partie_b params_techniciens h) 2)),
        (''partie_c'', Num (py_round (partie_fixe params_techniciens) 2))])"
  by (simp add: calculer_are_def PARAMS_def calculer_sjr_eq)

lemma calculer_are_10:
  "calculer_are 10 s h c j =
     Inr ([], resultat 10
       (are_brute_annexe10 params_artistes (if 0 < j then s / of_int j else 0) c)
       [(''sjr'', Num (py_round (if 0 < j then s / of_int j else 0) 2)),
        (''partie_sjr_70pc'', Num (py_round (70 / 100 * (if 0 < j then s / of_int j else 0)) 2)),
        (''partie_a_grok_final'',
           Num (py_round (partie_a_grok (if 0 < j then s / of_int j else 0)) 2)),
        (''partie_b_grok_cachets'', Num (py_round (partie_b_grok c) 2))])"
  by (simp add: calculer_are_def PARAMS_def calculer_sjr_eq)

lemma calculer_are_unsupported:
  assumes "a \<noteq> 8" and "a \<noteq> 10"
  shows "calculer_are a s h c j = Inl (KeyError a)"
  using assms by (simp add: calculer_are_def PARAMS_simps)

lemma brut_resultat: "brut (resultat a b d) = py_round b 2"
  by (simp add: resultat_def)

lemma net_resultat_8: "net (resultat 8 b d) = py_round (are_nette b) 2"
  by (simp add: resultat_def)

lemma net_resultat_10:
  "net (resultat 10 b d) = py_round (are_nette b / diviseur_annualisation) 2"
  by (simp add: resultat_def)

lemma are_nette_le:
  assumes "0 \<le> b"
  shows "are_nette b \<le> b"
  using assms by (simp add: are_nette_def)

lemma are_nette_nonneg:
  assumes "0 \<le> b"
  shows "0 \<le> are_nette b"
  using assms by (simp add: are_nette_def)

lemma are_nette_below:
  assumes "b \<le> SMIC_JOURNALIER"
  shows "are_nette b = b"
  using assms by (simp add: are_nette_def)

lemma plancher_le_annexe8: "plancher p \<le> are_brute_annexe8 p s h"
  by (simp add: are_brute_annexe8_def)

lemma plancher_le_annexe10: "plancher p \<le> are_brute_annexe10 p sjr c"
  by (simp add: are_brute_annexe10_def)

lemma brut_annexe8_ge: "3834 / 100 \<le> py_round (are_brute_annexe8 params_techniciens s h) 2"
  using py_round_mono [OF plancher_le_annexe8, of params_techniciens 2 s h]
  unfolding py_round_plancher_8 .

lemma brut_annexe10_ge: "4443 / 100 \<le> py_round (are_brute_annexe10 params_artistes x c) 2"
  using py_round_mono [OF plancher_le_annexe10, of params_artistes 2 x c]
  unfolding py_round_plancher_10 .

lemma net_le_brut_8:
  "py_round (are_nette (are_brute_annexe8 params_techniciens s h)) 2
     \<le> py_round (are_brute_annexe8 params_techniciens s h) 2"
proof -
  have "0 \<le> plancher params_techniciens"
    by (simp add: params_techniciens_def)
  with plancher_le_annexe8 [of params_techniciens s h]
  have "0 \<le> are_brute_annexe8 params_techniciens s h"
    by linarith
  then show ?thesis
    by (intro py_round_mono are_nette_le)
qed

lemma net_brut_below_SMIC:
  assumes "py_round b 2 < SMIC_JOURNALIER"
  shows "py_round (are_nette b) 2 = py_round b 2"
  using py_round_below_SMIC [OF assms] by (simp add: are_nette_below)

lemma divisor_close:
  fixes n v a :: rat
  assumes "\<bar>n - a * (25 / 44)\<bar> \<le> 1 / 200" and "\<bar>v - a\<bar> \<le> 1 / 200"
  shows "\<bar>n - v * (25 / 44)\<bar> < 1 / 100"
  using assms unfolding abs_le_iff abs_less_iff by linarith

lemma below_from_close:
  fixes n v b :: rat
  assumes "v \<le> b" and "4443 / 100 \<le> b" and "\<bar>n - v * (25 / 44)\<bar> < 1 / 100"
  shows "n < b"
  using assms unfolding abs_less_iff by linarith

lemma divide_diviseur: "x / diviseur_annualisation = x * (25 / 44)"
  by (simp add: diviseur_annualisation_def)

lemma net_close_to_avant:
  "\<bar>py_round (are_nette b / diviseur_annualisation) 2
      - py_round (are_nette b) 2 / diviseur_annualisation\<bar> < 1 / 100"
  unfolding divide_diviseur
  by (rule divisor_close [OF py_round_close [unfolded divide_diviseur] py_round_close])

lemma net_lt_brut_10:
  "py_round (are_nette (are_brute_annexe10 params_artistes x c) / diviseur_annualisation) 2
     < py_round (are_brute_annexe10 params_artistes x c) 2"
proof -
  let ?G = "are_brute_annexe10 params_artistes x c"
  have "0 \<le> plancher params_artistes"
    by (simp add: params_artistes_def)
  with plancher_le_annexe10 [of params_artistes x c] have "0 \<le> ?G"
    by linarith
  then have "py_round (are_nette ?G) 2 \<le> py_round ?G 2"
    by (intro py_round_mono are_nette_le)
  then show ?thesis
    unfolding divide_diviseur
    using brut_annexe10_ge [of x c] net_close_to_avant [of ?G, unfolded divide_diviseur]
    by (rule below_from_close)
qed

section \<open>Monotonicity in the reference salary\<close>

lemma two_piece_mono:
  fixes a b t x y :: rat
  assumes "0 \<le> a" and "0 \<le> b" and "x \<le> y"
  shows "(if x \<le> t then a * x else a * t + b * (x - t))
           \<le> (if y \<le> t then a * y else a * t + b * (y - t))"
proof (cases "y \<le> t")
  case True
  with assms show ?thesis
    by (simp add: mult_left_mono)
next
  case False
  show ?thesis
  proof (cases "x \<le> t")
    case True
    have "a * x \<le> a * t"
      using True assms(1) by (rule mult_left_mono)
    moreover have "0 \<le> b * (y - t)"
      using False assms(2) by simp
    ultimately show ?thesis
      using True False by simp
  next
    case x: False
    have "b * (x - t) \<le> b * (y - t)"
      using assms(2,3) by (simp add: mult_left_mono)
    then show ?thesis
      using x False by simp
  qed
qed

lemma partie_a_two_piece:
  "partie_a params_techniciens s =
     (if s \<le> 14400 then 66591 / 25000000 * s
      else 66591 / 25000000 * 14400 + 3171 / 10000000 * (s - 14400))"
  by (simp add: partie_a_def params_techniciens_def AJ_MINIMALE_def)

lemma partie_a_mono:
  assumes "s1 \<le> s2"
  shows "partie_a params_techniciens s1 \<le> partie_a params_techniciens s2"
  unfolding partie_a_two_piece
  by (rule two_piece_mono) (simp_all add: assms)

lemma are_brute_annexe8_mono:
  assumes "s1 \<le> s2"
  shows "are_brute_annexe8 params_techniciens s1 h \<le> are_brute_annexe8 params_techniciens s2 h"
  using partie_a_mono [OF assms] by (simp add: are_brute_annexe8_def max_def)

lemma sjr_mono:
  assumes "s1 \<le> (s2 :: rat)"
  shows "(if 0 < j then s1 / of_int j else 0) \<le> (if 0 < j then s2 / of_int j else 0)"
  using assms by (simp add: divide_right_mono)

lemma partie_a_grok_mono:
  assumes "x \<le> y"
  shows "partie_a_grok x \<le> partie_a_grok y"
  using assms by (simp add: partie_a_grok_def max_def)

lemma are_brute_annexe10_mono:
  assumes "x \<le> y"
  shows "are_brute_annexe10 p x c \<le> are_brute_annexe10 p y c"
  using partie_a_grok_mono [OF assms] by (simp add: are_brute_annexe10_def max_def)

lemma brut_annexe8_mono:
  assumes "s1 \<le> s2"
  shows "py_round (are_brute_annexe8 params_techniciens s1 h) 2
           \<le> py_round (are_brute_annexe8 params_techniciens s2 h) 2"
  by (intro py_round_mono are_brute_annexe8_mono assms)

lemma brut_annexe10_mono:
  assumes "s1 \<le> s2"
  shows "py_round (are_brute_annexe10 p (if 0 < j then s1 / of_int j else 0) c) 2
           \<le> py_round (are_brute_annexe10 p (if 0 < j then s2 / of_int j else 0) c) 2"
  by (intro py_round_mono are_brute_annexe10_mono sjr_mono assms)

section \<open>The two branches of the technician parts against \<open>min\<close> and \<open>max\<close>\<close>

lemma partie_a_min_max:
  "partie_a params_techniciens s =
     3171 / 100 * (42 / 100 * min s 14400 + 5 / 100 * max 0 (s - 14400)) / 5000"
  by (simp add: partie_a_def params_techniciens_def AJ_MINIMALE_def min_def max_def)

lemma partie_b_min_max:
  "partie_b params_techniciens h =
     3171 / 100 * (26 / 100 * min (of_int h) 720 + 8 / 100 * max 0 (of_int h - 720)) / 507"
  by (simp add: partie_b_def params_techniciens_def AJ_MINIMALE_def min_def max_def)

lemma partie_fixe_techniciens: "partie_fixe params_techniciens = 3171 / 100 * (40 / 100)"
  by (simp add: partie_fixe_def params_techniciens_def AJ_MINIMALE_def)

lemma plancher_techniciens: "plancher params_techniciens = 3834 / 100"
  by (simp add: params_techniciens_def)

lemma ceiling_143: "\<lceil>(143 :: rat) * (14 / 10) / 8\<rceil> = 26"
  by code_simp

section \<open>The claims\<close>

text \<open>
  C1. An annexe other than 8 and 10 never reaches the branch that reports the error and
  returns the zeroed dictionary: the lookup of its parameters on line 55 raises
  \<open>KeyError\<close> first. For annexe 7 the call ends in that exception.
\<close>

theorem calculer_are_annexe7_raises:
  "calculer_are 7 15000 800 61 365 = Inl (KeyError 7)"
  by (simp add: calculer_are_def PARAMS_def)

text \<open>
  C2. For a technician with a salary of 15000, 800 hours and 365 reference days, whatever
  the number of cachets, the parts are 38.55, 12.11 and 12.68, the gross daily allowance is
  63.34, it exceeds the threshold of 60, and the net daily allowance is 59.10; no divisor
  is applied.
\<close>

theorem technician_scenario:
  "calculer_are 8 15000 800 c 365 =
     Inr ([], \<lparr>net = 5910 / 100, brut = 6334 / 100,
                details =
                  [(''partie_a'', Num (3855 / 100)),
                   (''partie_b'', Num (1211 / 100)),
                   (''partie_c'', Num (1268 / 100)),
                   (''diviseur_annualisation_applique'', Txt ''Non applicable'')]\<rparr>) \<and>
   SMIC_JOURNALIER < are_brute_annexe8 params_techniciens 15000 800"
proof -
  have "calculer_are 8 15000 800 0 365 =
     Inr ([], \<lparr>net = 5910 / 100, brut = 6334 / 100,
                details =
                  [(''partie_a'', Num (3855 / 100)),
                   (''partie_b'', Num (1211 / 100)),
                   (''partie_c'', Num (1268 / 100)),
                   (''diviseur_annualisation_applique'', Txt ''Non applicable'')]\<rparr>)"
    by code_simp
  moreover have "calculer_are 8 15000 800 c 365 = calculer_are 8 15000 800 0 365"
    unfolding calculer_are_8 ..
  moreover have "SMIC_JOURNALIER < are_brute_annexe8 params_techniciens 15000 800"
    by code_simp
  ultimately show ?thesis
    by simp
qed

text \<open>
  C2, as the specification states it, fails on that input: the result is not the one with
  parts 38.30 and 12.06, gross 63.04 and net 58.82.
\<close>

theorem technician_scenario_counterexample:
  "calculer_are 8 15000 800 61 365 \<noteq>
     Inr ([], \<lparr>net = 5882 / 100, brut = 6304 / 100,
                details =
                  [(''partie_a'', Num (3830 / 100)),
                   (''partie_b'', Num (1206 / 100)),
                   (''partie_c'', Num (1268 / 100)),
                   (''diviseur_annualisation_applique'', Txt ''Non applicable'')]\<rparr>) \<and>
   net (snd (projr (calculer_are 8 15000 800 61 365))) \<noteq> 5882 / 100 \<and>
   brut (snd (projr (calculer_are 8 15000 800 61 365))) \<noteq> 6304 / 100 \<and>
   map_of (details (snd (projr (calculer_are 8 15000 800 61 365)))) ''partie_a''
     \<noteq> Some (Num (3830 / 100)) \<and>
   map_of (details (snd (projr (calculer_are 8 15000 800 61 365)))) ''partie_b''
     \<noteq> Some (Num (1206 / 100))"
  by code_simp

text \<open>
  C3. For both supported annexes the returned net allowance is at most the returned gross
  allowance. For annexe 8 the two are equal whenever the returned gross allowance is
  strictly below the threshold of 60. For annexe 10 the returned net allowance is strictly
  below the returned gross allowance; it is the net allowance before the annualisation
  divisor, reported in the details, divided by 1.76, to within a cent (both are rounded);
  and that reported amount equals the returned gross allowance whenever the latter is
  strictly below 60.
\<close>

theorem net_le_brut:
  "(\<exists>r. calculer_are 8 s h c j = Inr ([], r) \<and> net r \<le> brut r \<and>
        (brut r < SMIC_JOURNALIER \<longrightarrow> net r = brut r)) \<and>
   (\<exists>r v. calculer_are 10 s h c j = Inr ([], r) \<and> net r < brut r \<and>
        map_of (details r) ''are_nette_avant_diviseur'' = Some (Num v) \<and>
        \<bar>net r - v / diviseur_annualisation\<bar> < 1 / 100 \<and>
        (brut r < SMIC_JOURNALIER \<longrightarrow> v = brut r))"
proof (intro conjI)
  show "\<exists>r. calculer_are 8 s h c j = Inr ([], r) \<and> net r \<le> brut r \<and>
        (brut r < SMIC_JOURNALIER \<longrightarrow> net r = brut r)"
    using net_le_brut_8 [of s h]
    by (simp add: calculer_are_8 brut_resultat net_resultat_8 net_brut_below_SMIC
        del: One_nat_def)
next
  let ?G = "are_brute_annexe10 params_artistes (if 0 < j then s / of_int j else 0) c"
  obtain r where r: "calculer_are 10 s h c j = Inr ([], r)"
    and rn: "net r = py_round (are_nette ?G / diviseur_annualisation) 2"
    and rb: "brut r = py_round ?G 2"
    and rd: "map_of (details r) ''are_nette_avant_diviseur'' = Some (Num (py_round (are_nette ?G) 2))"
    by (simp add: calculer_are_10 resultat_def)
  have "net r < brut r"
    unfolding rn rb by (rule net_lt_brut_10)
  moreover have "\<bar>net r - py_round (are_nette ?G) 2 / diviseur_annualisation\<bar> < 1 / 100"
    unfolding rn by (rule net_close_to_avant)
  moreover have "brut r < SMIC_JOURNALIER \<longrightarrow> py_round (are_nette ?G) 2 = brut r"
    unfolding rb by (simp add: net_brut_below_SMIC del: One_nat_def)
  ultimately show "\<exists>r v. calculer_are 10 s h c j = Inr ([], r) \<and> net r < brut r \<and>
        map_of (details r) ''are_nette_avant_diviseur'' = Some (Num v) \<and>
        \<bar>net r - v / diviseur_annualisation\<bar> < 1 / 100 \<and>
        (brut r < SMIC_JOURNALIER \<longrightarrow> v = brut r)"
    using r rd by blast
qed

text \<open>
  C3 for a salary of 10000, 500 hours, 20 cachets and 365 reference days: the gross
  allowances, 47.45 for annexe 8 and 52.16 for annexe 10, are above their floors and below
  the threshold.
\<close>

theorem net_le_brut_witness:
  "brut (snd (projr (calculer_are 8 10000 500 20 365))) < SMIC_JOURNALIER \<and>
   net (snd (projr (calculer_are 8 10000 500 20 365)))
     = brut (snd (projr (calculer_are 8 10000 500 20 365))) \<and>
   brut (snd (projr (calculer_are 10 10000 500 20 365))) < SMIC_JOURNALIER \<and>
   map_of (details (snd (projr (calculer_are 10 10000 500 20 365)))) ''are_nette_avant_diviseur''
     = Some (Num (brut (snd (projr (calculer_are 10 10000 500 20 365))))) \<and>
   net (snd (projr (calculer_are 10 10000 500 20 365)))
     < brut (snd (projr (calculer_are 10 10000 500 20 365)))"
proof -
  have t: "brut (snd (projr (calculer_are 8 10000 500 20 365))) < SMIC_JOURNALIER"
    by code_simp
  have a: "brut (snd (projr (calculer_are 10 10000 500 20 365))) < SMIC_JOURNALIER"
    by code_simp
  from net_le_brut [of 10000 500 20 365] obtain r8 r10 v
    where r8: "calculer_are 8 10000 500 20 365 = Inr ([], r8)"
      and e8: "brut r8 < SMIC_JOURNALIER \<longrightarrow> net r8 = brut r8"
      and r10: "calculer_are 10 10000 500 20 365 = Inr ([], r10)"
      and l10: "net r10 < brut r10"
      and d10: "map_of (details r10) ''are_nette_avant_diviseur'' = Some (Num v)"
      and e10: "brut r10 < SMIC_JOURNALIER \<longrightarrow> v = brut r10"
    by blast
  from t e8 have "net r8 = brut r8"
    by (simp add: r8)
  moreover from a e10 have "v = brut r10"
    by (simp add: r10)
  ultimately show ?thesis
    using t a l10 d10 by (simp add: r8 r10)
qed

text \<open>
  C3, as the specification states it, fails in two ways. For an artist with no salary and
  no cachets the gross allowance is 44.43, below the threshold of 60, and the net allowance
  is 44.43 / 1.76 = 25.24, not 44.43. For a technician with a salary of 42661 and no hours
  the gross allowance is just above 60 and is returned as 60.00, which is not above the
  threshold, and the net allowance is 55.98.
\<close>

theorem net_equals_brut_counterexample:
  "calculer_are 10 0 0 0 365 =
     Inr ([], \<lparr>net = 2524 / 100, brut = 4443 / 100,
                details =
                  [(''sjr'', Num 0), (''partie_sjr_70pc'', Num 0),
                   (''partie_a_grok_final'', Num (3171 / 100)),
                   (''partie_b_grok_cachets'', Num 0),
                   (''diviseur_annualisation_applique'', Num (176 / 100)),
                   (''are_nette_avant_diviseur'', Num (4443 / 100))]\<rparr>) \<and>
   brut (snd (projr (calculer_are 10 0 0 0 365))) \<le> SMIC_JOURNALIER \<and>
   net (snd (projr (calculer_are 10 0 0 0 365))) \<noteq> brut (snd (projr (calculer_are 10 0 0 0 365))) \<and>
   brut (snd (projr (calculer_are 8 42661 0 0 365))) \<le> SMIC_JOURNALIER \<and>
   net (snd (projr (calculer_are 8 42661 0 0 365))) = 5598 / 100 \<and>
   net (snd (projr (calculer_are 8 42661 0 0 365)))
     \<noteq> brut (snd (projr (calculer_are 8 42661 0 0 365)))"
  by code_simp

text \<open>The whole result for that technician.\<close>

lemma technician_rounding_edge:
  "calculer_are 8 42661 0 0 365 =
     Inr ([], \<lparr>net = 5598 / 100, brut = 60,
                details =
                  [(''partie_a'', Num (4732 / 100)),
                   (''partie_b'', Num 0),
                   (''partie_c'', Num (1268 / 100)),
                   (''diviseur_annualisation_applique'', Txt ''Non applicable'')]\<rparr>)"
  by code_simp

text \<open>
  C4. For an artist with a salary of 8536.59, 732 hours, 61 cachets and 319 reference
  days, the daily reference wage is 26.76, its 70 percent part 18.73, part A 31.71, part B
  62.37, the gross daily allowance 94.08, the net allowance before the divisor 87.78 and
  the final net allowance 49.87.
\<close>

theorem artist_scenario:
  "calculer_are 10 (853659 / 100) 732 61 319 =
     Inr ([], \<lparr>net = 4987 / 100, brut = 9408 / 100,
                details =
                  [(''sjr'', Num (2676 / 100)),
                   (''partie_sjr_70pc'', Num (1873 / 100)),
                   (''partie_a_grok_final'', Num (3171 / 100)),
                   (''partie_b_grok_cachets'', Num (6237 / 100)),
                   (''diviseur_annualisation_applique'', Num (176 / 100)),
                   (''are_nette_avant_diviseur'', Num (8778 / 100))]\<rparr>)"
  by code_simp

text \<open>
  C4, as the specification states it, fails on that input: the final net allowance is more
  than a cent away from 49.85, and the net allowance before the divisor is 87.78, more than
  a cent away from 87.74.
\<close>

theorem artist_scenario_counterexample:
  "1 / 100 < \<bar>net (snd (projr (calculer_are 10 (853659 / 100) 732 61 319))) - 4985 / 100\<bar> \<and>
   map_of (details (snd (projr (calculer_are 10 (853659 / 100) 732 61 319))))
       ''are_nette_avant_diviseur'' = Some (Num (8778 / 100)) \<and>
   1 / 100 < \<bar>(8778 / 100 :: rat) - 8774 / 100\<bar>"
  by code_simp

text \<open>
  C5. The gross daily allowance of the technician branch, computed with the two branches
  of each part, is the \<open>min\<close>/\<open>max\<close> form of the specification, for every salary and
  number of hours; the returned \<open>brut\<close> is that amount rounded to two decimals.
\<close>

theorem technician_gross_matches_spec:
  "are_brute_annexe8 params_techniciens s h = spec_technician_gross s (of_int h) \<and>
   (\<exists>r. calculer_are 8 s h c j = Inr ([], r) \<and>
        brut r = py_round (spec_technician_gross s (of_int h)) 2)"
proof -
  have "are_brute_annexe8 params_techniciens s h = spec_technician_gross s (of_int h)"
    unfolding are_brute_annexe8_def spec_technician_gross_def partie_a_min_max
      partie_b_min_max partie_fixe_techniciens plancher_techniciens ..
  then show ?thesis
    by (simp add: calculer_are_8 brut_resultat)
qed

text \<open>
  C6. The returned gross daily allowance is at least the floor of the annexe: 44.43 for
  annexe 10 and 38.34 for annexe 8, for every input.
\<close>

theorem gross_at_least_floor:
  "(\<exists>r. calculer_are 10 s h c j = Inr ([], r) \<and> 4443 / 100 \<le> brut r) \<and>
   (\<exists>r. calculer_are 8 s h c j = Inr ([], r) \<and> 3834 / 100 \<le> brut r)"
  unfolding calculer_are_8 calculer_are_10
  using brut_annexe8_ge brut_annexe10_ge by (simp add: brut_resultat del: One_nat_def)

text \<open>
  C7. The days without allowance are \<open>ceil (hours \<times> 1.3 / 10)\<close> for annexe 10 and
  \<open>ceil (hours \<times> 1.4 / 8)\<close> for annexe 8, capped at the days of the month, so never
  more than the days of the month. A technician month of 30 days with 143 hours of
  fixed-term contract and nothing else has 26 days without allowance, 4 days with
  allowance and a monthly amount of four times the daily allowance entered.
\<close>

theorem calcul_jni_formula:
  "calcul_jni 10 h d = min \<lceil>of_int h * (13 / 10 :: rat) / 10\<rceil> d \<and>
   calcul_jni 8 h d = min \<lceil>of_int h * (14 / 10 :: rat) / 8\<rceil> d \<and>
   calcul_jni a h d \<le> d \<and>
   simuler_mois 8 30 0 hc 0 0 0 143 ov =
     \<lparr>heures_totales = 143, jni = 26, jours_indem = 4, are_mensuelle = ov * 4\<rparr>"
proof -
  have "calcul_jni 8 143 30 = 26"
    using ceiling_143 by (simp add: calcul_jni_def)
  then show ?thesis
    by (simp add: simuler_mois_def Let_def) (simp add: calcul_jni_def)
qed

text \<open>
  C8. For annexe 8 and for annexe 10, with the hours, the cachets and the reference days
  fixed, a larger reference salary never gives a smaller returned gross daily allowance.
\<close>

theorem gross_monotone_in_salary:
  assumes "annexe = 8 \<or> annexe = 10" and "s1 \<le> s2"
  shows "\<exists>r1 r2. calculer_are annexe s1 h c j = Inr ([], r1) \<and>
                 calculer_are annexe s2 h c j = Inr ([], r2) \<and> brut r1 \<le> brut r2"
  using assms(1)
proof
  assume "annexe = 8"
  then show ?thesis
    using brut_annexe8_mono [OF assms(2)]
    by (simp add: calculer_are_8 brut_resultat del: One_nat_def)
next
  assume "annexe = 10"
  then show ?thesis
    using brut_annexe10_mono [OF assms(2)]
    by (simp add: calculer_are_10 brut_resultat del: One_nat_def)
qed

text \<open>C8 for an artist whose reference salary goes from 8000 to 20000.\<close>

theorem gross_monotone_in_salary_witness:
  "((10 :: int) = 8 \<or> (10 :: int) = 10) \<and> (8000 :: rat) \<le> 20000 \<and>
   (\<exists>r1 r2. calculer_are 10 8000 732 61 319 = Inr ([], r1) \<and>
            calculer_are 10 20000 732 61 319 = Inr ([], r2) \<and> brut r1 \<le> brut r2)"
proof -
  have a: "(10 :: int) = 8 \<or> (10 :: int) = 10"
    by simp
  have b: "(8000 :: rat) \<le> 20000"
    by simp
  from gross_monotone_in_salary [OF a b, of 732 61 319] a b show ?thesis
    by blast
qed

text \<open>
  C9. The daily reference wage is the salary divided by the reference days when these are
  positive and 0 otherwise; no call raises \<open>ZeroDivisionError\<close>, and for both supported
  annexes the call returns a result, whatever the number of reference days. For annexe 10
  the details report that wage rounded to two decimals.
\<close>

theorem sjr_guarded:
  "calculer_sjr s j = Inr (if 0 < j then s / of_int j else 0) \<and>
   calculer_are a s h c j \<noteq> Inl ZeroDivisionError \<and>
   (\<exists>r. calculer_are 8 s h c j = Inr ([], r)) \<and>
   (\<exists>r. calculer_are 10 s h c j = Inr ([], r) \<and>
        map_of (details r) ''sjr'' = Some (Num (py_round (if 0 < j then s / of_int j else 0) 2)))"
proof -
  have "calculer_are a s h c j \<noteq> Inl ZeroDivisionError"
    by (simp add: calculer_are_def calculer_sjr_eq split: option.split)
  then show ?thesis
    by (simp add: calculer_sjr_eq calculer_are_8 calculer_are_10 resultat_def)
qed

text \<open>
  C10. \<^verbatim>\<open>calcul_jni\<close> does not validate the annexe: every value other than 10 gets
  the technician formula \<open>min (ceil (hours \<times> 1.4 / 8)) days\<close>.
\<close>

theorem calcul_jni_no_validation:
  assumes "annexe \<noteq> 10"
  shows "calcul_jni annexe h d = min \<lceil>of_int h * (14 / 10 :: rat) / 8\<rceil> d"
  using assms by (simp add: calcul_jni_def)

text \<open>C10 for the unsupported annexe 7, with 143 hours in a month of 30 days.\<close>

theorem calcul_jni_no_validation_witness:
  "(7 :: int) \<noteq> 10 \<and>
   calcul_jni 7 143 30 = min \<lceil>of_int 143 * (14 / 10 :: rat) / 8\<rceil> 30 \<and>
   calcul_jni 7 143 30 = 26"
proof -
  have n: "(7 :: int) \<noteq> 10"
    by simp
  from calcul_jni_no_validation [OF n, of 143 30] n ceiling_143 show ?thesis
    by simp
qed

end
